theory Spec2Isabelle
  imports Main "HOL-Library.Word"
begin

unbundle bit_operations_syntax

section \<open>The C library functions used by rpminspect.c\<close>

text \<open>
  A C string is modelled as a \<open>string\<close> holding the characters before the terminating
  NUL; a \<open>char *\<close> that may be \<open>NULL\<close> is a \<open>string option\<close>.
\<close>

text \<open>
  \<open>rindex(s, c)\<close>: the offset of the last occurrence of \<open>c\<close> in \<open>s\<close>, \<open>None\<close> for the
  \<open>NULL\<close> it returns when \<open>c\<close> does not occur.
\<close>

fun rindex :: "string \<Rightarrow> char \<Rightarrow> nat option" where
  "rindex [] c = None"
| "rindex (x # xs) c =
     (case rindex xs c of
        Some i \<Rightarrow> Some (Suc i)
      | None \<Rightarrow> if x = c then Some 0 else None)"

text \<open>
  \<open>strcspn(s, reject)\<close>: the length of the longest prefix of \<open>s\<close> that holds no character
  of \<open>reject\<close>.
\<close>

fun strcspn :: "string \<Rightarrow> string \<Rightarrow> nat" where
  "strcspn [] reject = 0"
| "strcspn (x # xs) reject = (if x \<in> set reject then 0 else Suc (strcspn xs reject))"

text \<open>
  \<open>strdup(s)\<close>: a copy of \<open>s\<close>, or \<open>NULL\<close> when memory is exhausted. Allocation is taken
  to succeed; the callers keep the branches that test the result.
\<close>

definition strdup :: "string \<Rightarrow> string option" where
  "strdup s = Some s"

text \<open>
  \<open>strsep(&stringp, delim)\<close> with a one-character delimiter: \<open>None\<close> when \<open>*stringp\<close> is
  \<open>NULL\<close>; otherwise the token up to the first delimiter together with the new value of
  \<open>*stringp\<close>, which is the text after that delimiter, or \<open>NULL\<close> when there was none.
\<close>

fun strsep_from :: "string \<Rightarrow> char \<Rightarrow> string \<times> string option" where
  "strsep_from [] d = ([], None)"
| "strsep_from (x # xs) d =
     (if x = d then ([], Some xs)
      else (case strsep_from xs d of (tok, rest) \<Rightarrow> (x # tok, rest)))"

definition strsep :: "string option \<Rightarrow> char \<Rightarrow> (string \<times> string option) option" where
  "strsep stringp d = (case stringp of None \<Rightarrow> None | Some s \<Rightarrow> Some (strsep_from s d))"

fun strlen_opt :: "string option \<Rightarrow> nat" where
  "strlen_opt None = 0"
| "strlen_opt (Some s) = Suc (length s)"

text \<open>
  The tokens that the loop \<open>while ((token = strsep(&walk, ",")) != NULL)\<close> sees, in order.
  The bodies of the two loops of this shape in \<open>main\<close> do not touch \<open>walk\<close>, so the
  sequence of tokens does not depend on them.
\<close>

function strsep_all :: "string option \<Rightarrow> char \<Rightarrow> string list" where
  "strsep_all stringp d =
     (case strsep stringp d of
        None \<Rightarrow> []
      | Some (tok, rest) \<Rightarrow> tok # strsep_all rest d)"
  by pat_completeness auto
termination
proof (relation "measure (\<lambda>(stringp, d). strlen_opt stringp)")
  show "wf (measure (\<lambda>(stringp, d). strlen_opt stringp))" by simp
next
  fix stringp d x2 tok rest
  assume "strsep stringp d = Some x2" and "(tok, rest) = x2"
  then obtain s where s: "stringp = Some s" and r: "strsep_from s d = (tok, rest)"
    by (auto simp: strsep_def split: option.splits)
  have shorter: "strsep_from u d = (t, r) \<Longrightarrow> strlen_opt r < Suc (length u)" for u t r
    by (induction u arbitrary: t r) (auto split: if_splits prod.splits)
  from shorter [OF r] s
  show "((rest, d), (stringp, d)) \<in> measure (\<lambda>(stringp, d). strlen_opt stringp)"
    by simp
qed

declare strsep_all.simps [simp del]

text \<open>\<open>tolower\<close> in the C locale, and \<open>strcasecmp(a, b) == 0\<close>.\<close>

definition tolower :: "char \<Rightarrow> char" where
  "tolower c =
     (let n = (of_char c :: nat) in if 65 \<le> n \<and> n \<le> 90 then char_of (n + 32) else c)"

definition strcasecmp_eq :: "string \<Rightarrow> string \<Rightarrow> bool" where
  "strcasecmp_eq a b = (map tolower a = map tolower b)"

section \<open>Errors and results\<close>

datatype build_role = Before_build | After_build

text \<open>The diagnostics that rpminspect.c writes to stderr, one constructor for each message.\<close>

datatype error =
    Empty_product_release build_role string
      \<comment> \<open>\<open>*** Product release for before/after build (%s) is empty\<close>\<close>
  | Product_release_mismatch string string
      \<comment> \<open>\<open>*** Builds have different product releases (%s != %s)\<close>\<close>
  | Conflicting_selection
      \<comment> \<open>\<open>*** The -T and -E options are mutually exclusive\<close>\<close>
  | Unknown_inspection string
      \<comment> \<open>\<open>*** Unknown test specified: `%s`\<close>\<close>
  | Invalid_output_format string
      \<comment> \<open>\<open>*** Invalid output format: `%s`.\<close>\<close>
  | Workdir_expand_failed string
      \<comment> \<open>\<open>*** Unable to expand workdir: `%s`: %s\<close>\<close>
  | Unknown_option_code int
      \<comment> \<open>\<open>?? getopt returned character code 0%o ??\<close>\<close>
  | Config_unreadable string
      \<comment> \<open>\<open>Specified config file (%s) is unreadable.\<close>\<close>
  | Default_config_unreadable
      \<comment> \<open>\<open>Unable to read the default config file (%s).\<close>\<close>
  | Config_read_failed
      \<comment> \<open>\<open>Failed to read configuration file\<close>\<close>
  | Invalid_build_specification
      \<comment> \<open>\<open>*** Invalid before and after build specification.\<close>\<close>
  | Fetch_only_requires_single_build
      \<comment> \<open>\<open>*** Fetch only mode takes a single build specification.\<close>\<close>
  | Rpm_configuration_unreadable
      \<comment> \<open>\<open>*** unable to read RPM configuration\<close>\<close>
  | Unsupported_architecture string
      \<comment> \<open>\<open>*** Unsupported architecture specified: `%s`\<close>\<close>
  | Workdir_create_failed string
      \<comment> \<open>\<open>*** Unable to create directory %s: %s\<close>\<close>
  | Build_gather_failed
      \<comment> \<open>\<open>*** Failed to gather specified builds.\<close>\<close>
  | Workdir_remove_failed string
      \<comment> \<open>\<open>*** Error removing directory %s: %s\<close>\<close>

text \<open>
  What a call of a C function comes to: it returns a value, or its behaviour is undefined
  (here: a read through a pointer computed from \<open>NULL\<close>).
\<close>

datatype 'a c_result = Returned 'a | Undefined_behaviour

section \<open>get_product_release\<close>

text \<open>
  \<open>get_product_release(before, after)\<close>, lines 77 to 134. \<open>after\<close> is not \<open>NULL\<close> (the
  function asserts it); \<open>before\<close> may be. \<open>Inl e\<close> is the return of \<open>NULL\<close> after the
  message \<open>e\<close> went to stderr, \<open>Inr s\<close> the return of the string \<open>s\<close>.

  For \<open>after\<close> the result of \<open>rindex\<close> is tested before it is used. For \<open>before\<close> the source
  computes \<open>rindex(before, '.') + 1\<close> and hands it to \<open>strdup\<close> with no test: when \<open>before\<close>
  holds no period this is a read through the pointer \<open>NULL + 1\<close>.
\<close>

definition get_product_release :: "string option \<Rightarrow> string \<Rightarrow> (error + string) c_result" where
  "get_product_release before_build after_build =
     (case rindex after_build (CHR ''.'') of
        None \<Rightarrow> Returned (Inl (Empty_product_release After_build after_build))
      | Some pos \<Rightarrow>
          (case strdup (drop (Suc pos) after_build) of
             None \<Rightarrow> Returned (Inl (Empty_product_release After_build after_build))
           | Some after_dup \<Rightarrow>
               (let after_product = take (strcspn after_dup ''/'') after_dup in
                case before_build of
                  None \<Rightarrow> Returned (Inr after_product)
                | Some b \<Rightarrow>
                    (case rindex b (CHR ''.'') of
                       None \<Rightarrow> Undefined_behaviour
                     | Some bpos \<Rightarrow>
                         (case strdup (drop (Suc bpos) b) of
                            None \<Rightarrow> Returned (Inl (Empty_product_release Before_build b))
                          | Some before_dup \<Rightarrow>
                              (let before_product = take (strcspn before_dup ''/'') before_dup in
                               if before_product \<noteq> after_product
                               then Returned (Inl (Product_release_mismatch
                                                     before_product after_product))
                               else Returned (Inr after_product)))))))"

text \<open>
  The resolver as section 4.2 of the specification words it, for comparison with the
  function above: the tag is the substring after the last period with the trailing
  slashes stripped; a missing period or an empty tag is \<open>EmptyProductRelease\<close> for the
  identifier concerned; two different tags are \<open>ProductReleaseMismatch\<close>.
\<close>

definition strip_trailing_slashes :: "string \<Rightarrow> string" where
  "strip_trailing_slashes s = rev (dropWhile (\<lambda>c. c = CHR ''/'') (rev s))"

definition spec_product_tag :: "string \<Rightarrow> string option" where
  "spec_product_tag ident =
     (case rindex ident (CHR ''.'') of
        None \<Rightarrow> None
      | Some pos \<Rightarrow>
          (let t = strip_trailing_slashes (drop (Suc pos) ident)
           in if t = [] then None else Some t))"

definition spec_resolve :: "string option \<Rightarrow> string \<Rightarrow> error + string" where
  "spec_resolve before_build after_build =
     (case spec_product_tag after_build of
        None \<Rightarrow> Inl (Empty_product_release After_build after_build)
      | Some a \<Rightarrow>
          (case before_build of
             None \<Rightarrow> Inr a
           | Some b \<Rightarrow>
               (case spec_product_tag b of
                  None \<Rightarrow> Inl (Empty_product_release Before_build b)
                | Some t \<Rightarrow> if t = a then Inr a else Inl (Product_release_mismatch t a))))"


section \<open>The run context and the registries\<close>

text \<open>
  Modelled from the spec: \<open>struct rpminspect\<close> is declared in rpminspect.h, which is not
  among the sources. The fields are those that rpminspect.c reads and writes, typed as
  section 3 of the specification describes the run context; a pointer that may be \<open>NULL\<close>
  is an option. \<open>ri_before\<close> and \<open>ri_after\<close> are the fields \<open>before\<close> and \<open>after\<close>.
\<close>

record rpminspect =
  verbose :: bool
  product_release :: "string option"
  tests :: "64 word"
  workdir :: string
  worksubdir :: "string option"
  ri_before :: "string option"
  ri_after :: "string option"
  arches :: "string list option"
  results :: "string list option"

text \<open>
  Modelled from the spec: the entries of the tables \<open>inspections[]\<close> and \<open>formats[]\<close>, also
  declared outside the sources. A driver receives a pointer to the context: it returns its
  verdict and the context as it leaves it. A table is the list of its entries; the loops
  over it stop at the terminating entry (\<open>flag\<close> 0, \<open>type\<close> -1) or at the end of the list.
\<close>

record inspect =
  flag :: "64 word"
  name :: string
  single_build :: bool
  driver :: "rpminspect \<Rightarrow> bool \<times> rpminspect"
  desc :: "string option"

record format =
  fmt_type :: int
  fmt_name :: string
  fmt_desc :: "string option"

text \<open>
  What the program calls outside rpminspect.c: the two tables, the file system and the
  library. A function that returns an \<open>int\<close> status gives that status here.
\<close>

record env =
  inspections :: "inspect list"
  formats :: "format list"
  access_ok :: "string \<Rightarrow> bool"
    \<comment> \<open>\<open>access(path, F_OK|R_OK) == 0\<close>\<close>
  glob_tilde :: "string \<Rightarrow> int \<times> string list"
    \<comment> \<open>\<open>glob(pattern, GLOB_TILDE_CHECK, NULL, &expand)\<close>: its result and \<open>gl_pathv\<close>\<close>
  init_rpminspect :: "string \<Rightarrow> int \<times> rpminspect"
    \<comment> \<open>the status and the initialised global \<open>ri\<close>\<close>
  init_librpm :: bool
    \<comment> \<open>\<open>init_librpm() == RPMRC_OK\<close>\<close>
  get_all_arches :: "rpminspect \<Rightarrow> string list"
  mkdirp :: "string \<Rightarrow> int"
  gather_builds :: "rpminspect \<Rightarrow> bool \<Rightarrow> int \<times> rpminspect"
  rmtree :: "string \<Rightarrow> int"

abbreviation (input) EXIT_SUCCESS :: int where "EXIT_SUCCESS \<equiv> 0"
abbreviation (input) EXIT_FAILURE :: int where "EXIT_FAILURE \<equiv> 1"

definition CFGFILE :: string where
  "CFGFILE = ''/etc/rpminspect/rpminspect.conf''"

section \<open>What a run does\<close>

text \<open>
  The observable steps of a run, in order: what is written to the two streams and the
  calls that leave rpminspect.c, with the values they return where \<open>main\<close> tests them.
\<close>

datatype event =
    Stderr error
  | Stdout_usage
  | Stdout_version
  | Stdout_listing
  | Stdout_keeping "string option"
      \<comment> \<open>\<open>Keeping working directory: %s\<close> with \<open>ri.worksubdir\<close>\<close>
  | Call_init_rpminspect string
  | Call_get_product_release "string option" string
  | Call_init_librpm
  | Call_get_all_arches
  | Call_mkdirp string
  | Call_gather_builds bool int
  | Call_driver string bool
  | Call_format_driver int "string option"
  | Call_rmtree string
  | Call_free_rpminspect

text \<open>
  How the process ends: \<open>exit(n)\<close> or \<open>return n\<close> from \<open>main\<close>, a failed \<open>assert\<close>, or
  undefined behaviour.
\<close>

datatype ending = Exit int | Assertion_failed | Undefined

record outcome =
  status :: ending
  events :: "event list"

text \<open>The names of the inspections whose drivers a trace invokes, in order.\<close>

fun driver_calls :: "event list \<Rightarrow> string list" where
  "driver_calls [] = []"
| "driver_calls (Call_driver n ok # es) = n # driver_calls es"
| "driver_calls (e # es) = driver_calls es"

section \<open>Option processing\<close>

text \<open>
  The command line as \<open>getopt_long\<close> hands it to the loop of \<open>main\<close>: the options in
  order, each with its argument, and then the positional arguments \<open>argv[optind]\<close> to
  \<open>argv[argc - 1]\<close>. \<open>Opt_other c\<close> is a code that no case of the switch names.
\<close>

datatype cli_option =
    Opt_c string | Opt_T string | Opt_E string | Opt_a string | Opt_r string
  | Opt_o string | Opt_F string | Opt_l | Opt_w string | Opt_f | Opt_k | Opt_v
  | Opt_help | Opt_V | Opt_other int

text \<open>
  The local variables of \<open>main\<close> that the option loop sets. \<open>opt_workdir\<close> and
  \<open>opt_verbose\<close> are the locals \<open>workdir\<close> and \<open>verbose\<close>, renamed apart from the fields
  of the context.
\<close>

record locals =
  cfgfile :: "string option"
  archopt :: "string option"
  opt_workdir :: "string option"
  "output" :: "string option"
  release :: "string option"
  formatidx :: int
  fetch_only :: bool
  keep :: bool
  opt_verbose :: bool
  selected :: "64 word"
  inspection_opt :: bool
  exclude :: bool

definition initial_locals :: locals where
  "initial_locals =
     \<lparr>cfgfile = None, archopt = None, opt_workdir = None, output = None, release = None,
      formatidx = -1, fetch_only = False, keep = False, opt_verbose = False,
      selected = 0, inspection_opt = False, exclude = False\<rparr>"

text \<open>\<open>check_inspection_options\<close>, lines 139 to 151: \<open>Some\<close> is the exit it makes.\<close>

definition check_inspection_options :: "bool \<Rightarrow> outcome option" where
  "check_inspection_options inspection_opt_seen =
     (if inspection_opt_seen
      then Some \<lparr>status = Exit EXIT_FAILURE, events = [Stderr Conflicting_selection]\<rparr>
      else None)"

text \<open>\<open>check_found\<close>, lines 157 to 170.\<close>

definition check_found :: "bool \<Rightarrow> string \<Rightarrow> outcome option" where
  "check_found found inspection =
     (if \<not> found
      then Some \<lparr>status = Exit EXIT_FAILURE, events = [Stderr (Unknown_inspection inspection)]\<rparr>
      else None)"

text \<open>
  \<open>process_inspection_flag\<close>, lines 183 to 218: the value it returns and the new value of
  \<open>*selected\<close>. \<open>find_inspection\<close> is its loop over the table.
\<close>

fun find_inspection :: "inspect list \<Rightarrow> string \<Rightarrow> bool \<Rightarrow> 64 word \<Rightarrow> bool \<times> 64 word" where
  "find_inspection [] inspection excl sel = (False, sel)"
| "find_inspection (d # ds) inspection excl sel =
     (if flag d = 0 then (False, sel)
      else if strcasecmp_eq inspection (name d)
      then (if excl then (True, sel AND NOT (flag d)) else (True, sel OR flag d))
      else find_inspection ds inspection excl sel)"

definition process_inspection_flag ::
  "inspect list \<Rightarrow> string \<Rightarrow> bool \<Rightarrow> 64 word \<Rightarrow> bool \<times> 64 word" where
  "process_inspection_flag table inspection excl sel =
     (if strcasecmp_eq inspection ''ALL''
      then (if excl then (True, 0) else (True, NOT 0))
      else find_inspection table inspection excl sel)"

text \<open>The loop of lines 292 to 295 over the tokens of the option's argument.\<close>

fun process_tokens :: "inspect list \<Rightarrow> bool \<Rightarrow> string list \<Rightarrow> 64 word \<Rightarrow> outcome + 64 word" where
  "process_tokens table excl [] sel = Inr sel"
| "process_tokens table excl (inspection # rest) sel =
     (case process_inspection_flag table inspection excl sel of
        (found, sel') \<Rightarrow>
          (case check_found found inspection of
             Some out \<Rightarrow> Inl out
           | None \<Rightarrow> process_tokens table excl rest sel'))"

text \<open>The loop of lines 310 to 315: the new value of \<open>formatidx\<close>.\<close>

fun find_format :: "format list \<Rightarrow> string \<Rightarrow> int \<Rightarrow> int" where
  "find_format [] optarg idx = idx"
| "find_format (f # fs) optarg idx =
     (if fmt_type f = -1 then idx
      else if strcasecmp_eq (fmt_name f) optarg then fmt_type f
      else find_format fs optarg idx)"

text \<open>The cases \<open>'T'\<close> and \<open>'E'\<close>, lines 279 to 298; \<open>excl\<close> tells which.\<close>

definition select_inspections :: "env \<Rightarrow> locals \<Rightarrow> bool \<Rightarrow> string \<Rightarrow> outcome + locals" where
  "select_inspections e l excl optarg =
     (case check_inspection_options (inspection_opt l) of
        Some out \<Rightarrow> Inl out
      | None \<Rightarrow>
          (case process_tokens (inspections e) excl (strsep_all (Some optarg) (CHR '',''))
                  (if excl then NOT 0 else 0) of
             Inl out \<Rightarrow> Inl out
           | Inr sel \<Rightarrow> Inr (l\<lparr>selected := sel, exclude := excl, inspection_opt := True\<rparr>)))"

text \<open>One round of the switch, lines 274 to 397: \<open>Inl\<close> when the process ends there.\<close>

fun process_option :: "env \<Rightarrow> locals \<Rightarrow> cli_option \<Rightarrow> outcome + locals" where
  "process_option e l (Opt_c optarg) = Inr (l\<lparr>cfgfile := strdup optarg\<rparr>)"
| "process_option e l (Opt_T optarg) = select_inspections e l False optarg"
| "process_option e l (Opt_E optarg) = select_inspections e l True optarg"
| "process_option e l (Opt_a optarg) = Inr (l\<lparr>archopt := strdup optarg\<rparr>)"
| "process_option e l (Opt_r optarg) = Inr (l\<lparr>release := strdup optarg\<rparr>)"
| "process_option e l (Opt_o optarg) = Inr (l\<lparr>output := strdup optarg\<rparr>)"
| "process_option e l (Opt_F optarg) =
     (let idx = find_format (formats e) optarg (formatidx l)
      in if idx < 0
         then Inl \<lparr>status = Exit EXIT_FAILURE, events = [Stderr (Invalid_output_format optarg)]\<rparr>
         else Inr (l\<lparr>formatidx := idx\<rparr>))"
| "process_option e l Opt_l = Inl \<lparr>status = Exit EXIT_SUCCESS, events = [Stdout_listing]\<rparr>"
| "process_option e l (Opt_w optarg) =
     (if CHR ''~'' \<in> set optarg
      then (case glob_tilde e optarg of
              (j, [path]) \<Rightarrow>
                if j = 0 then Inr (l\<lparr>opt_workdir := strdup path\<rparr>)
                else Inl \<lparr>status = Exit EXIT_FAILURE,
                          events = [Stderr (Workdir_expand_failed optarg)]\<rparr>
            | (j, _) \<Rightarrow>
                Inl \<lparr>status = Exit EXIT_FAILURE,
                     events = [Stderr (Workdir_expand_failed optarg)]\<rparr>)
      else Inr (l\<lparr>opt_workdir := strdup optarg\<rparr>))"
| "process_option e l Opt_f = Inr (l\<lparr>fetch_only := True, keep := True\<rparr>)"
| "process_option e l Opt_k = Inr (l\<lparr>keep := True\<rparr>)"
| "process_option e l Opt_v = Inr (l\<lparr>opt_verbose := True\<rparr>)"
| "process_option e l Opt_help = Inl \<lparr>status = Exit 0, events = [Stdout_usage]\<rparr>"
| "process_option e l Opt_V = Inl \<lparr>status = Exit 0, events = [Stdout_version]\<rparr>"
| "process_option e l (Opt_other c) =
     Inl \<lparr>status = Exit EXIT_FAILURE, events = [Stderr (Unknown_option_code c)]\<rparr>"

text \<open>The loop of lines 267 to 398.\<close>

fun parse_options :: "env \<Rightarrow> locals \<Rightarrow> cli_option list \<Rightarrow> outcome + locals" where
  "parse_options e l [] = Inr l"
| "parse_options e l (opt # opts) =
     (case process_option e l opt of
        Inl out \<Rightarrow> Inl out
      | Inr l' \<Rightarrow> parse_options e l' opts)"

section \<open>The pipeline of main\<close>

text \<open>
  After the option loop \<open>main\<close> is a sequence of steps, each of which either ends the
  process (\<open>Inl\<close>) or goes on with the context and the trace so far (\<open>Inr\<close>).
\<close>

definition and_then :: "outcome + 'a \<Rightarrow> ('a \<Rightarrow> outcome + 'b) \<Rightarrow> outcome + 'b" where
  "and_then r f = (case r of Inl out \<Rightarrow> Inl out | Inr x \<Rightarrow> f x)"

text \<open>Lines 407 to 416: the configuration file to read.\<close>

definition choose_config :: "env \<Rightarrow> locals \<Rightarrow> outcome + string" where
  "choose_config e l =
     (case cfgfile l of
        Some f \<Rightarrow>
          if \<not> access_ok e f
          then Inl \<lparr>status = Exit EXIT_FAILURE, events = [Stderr (Config_unreadable f)]\<rparr>
          else Inr f
      | None \<Rightarrow>
          if access_ok e CFGFILE then Inr CFGFILE
          else Inl \<lparr>status = Exit EXIT_FAILURE, events = [Stderr Default_config_unreadable]\<rparr>)"

text \<open>Lines 418 to 439: \<open>init_rpminspect\<close> and the options copied into the context.\<close>

definition main_init :: "env \<Rightarrow> locals \<Rightarrow> string \<Rightarrow> outcome + rpminspect \<times> event list" where
  "main_init e l cfg =
     (case init_rpminspect e cfg of
        (rc, ri0) \<Rightarrow>
          if rc \<noteq> 0
          then Inl \<lparr>status = Exit EXIT_FAILURE,
                    events = [Call_init_rpminspect cfg, Stderr Config_read_failed]\<rparr>
          else
            (let ri1 = ri0\<lparr>verbose := opt_verbose l, product_release := release l\<rparr>;
                 ri2 = (if selected l \<noteq> 0 \<or> exclude l then ri1\<lparr>tests := selected l\<rparr> else ri1);
                 ri3 = (case opt_workdir l of None \<Rightarrow> ri2 | Some w \<Rightarrow> ri2\<lparr>workdir := w\<rparr>)
             in Inr (ri3, [Call_init_rpminspect cfg])))"

text \<open>Lines 441 to 459: one positional argument, or two.\<close>

definition main_builds ::
  "string list \<Rightarrow> rpminspect \<times> event list \<Rightarrow> outcome + rpminspect \<times> event list" where
  "main_builds args st =
     (case st of (ri, evs) \<Rightarrow>
        (case args of
           [a] \<Rightarrow> Inr (ri\<lparr>ri_after := strdup a\<rparr>, evs)
         | [b, a] \<Rightarrow> Inr (ri\<lparr>ri_before := strdup b, ri_after := strdup a\<rparr>, evs)
         | _ \<Rightarrow> Inl \<lparr>status = Exit EXIT_FAILURE,
                     events = evs @ [Stderr Invalid_build_specification,
                                     Call_free_rpminspect]\<rparr>))"

text \<open>Lines 461 to 470.\<close>

definition main_fetch_only ::
  "locals \<Rightarrow> rpminspect \<times> event list \<Rightarrow> outcome + rpminspect \<times> event list" where
  "main_fetch_only l st =
     (case st of (ri, evs) \<Rightarrow>
        if fetch_only l \<and> ri_before ri \<noteq> None
        then Inl \<lparr>status = Exit EXIT_FAILURE,
                  events = evs @ [Stderr Fetch_only_requires_single_build,
                                  Call_free_rpminspect]\<rparr>
        else Inr (ri, evs))"

text \<open>
  Lines 472 to 483. \<open>get_product_release\<close> asserts that \<open>after\<close> is not \<open>NULL\<close>, and its
  undefined behaviour is that of the process.
\<close>

definition main_release :: "rpminspect \<times> event list \<Rightarrow> outcome + rpminspect \<times> event list" where
  "main_release st =
     (case st of (ri, evs) \<Rightarrow>
        (case product_release ri of
           Some r \<Rightarrow> Inr (ri, evs)
         | None \<Rightarrow>
             (case ri_after ri of
                None \<Rightarrow> Inl \<lparr>status = Assertion_failed, events = evs\<rparr>
              | Some a \<Rightarrow>
                  (case get_product_release (ri_before ri) a of
                     Undefined_behaviour \<Rightarrow>
                       Inl \<lparr>status = Undefined,
                            events = evs @ [Call_get_product_release (ri_before ri) a]\<rparr>
                   | Returned (Inl err) \<Rightarrow>
                       Inl \<lparr>status = Exit EXIT_FAILURE,
                            events = evs @ [Call_get_product_release (ri_before ri) a,
                                            Stderr err, Call_free_rpminspect]\<rparr>
                   | Returned (Inr r) \<Rightarrow>
                       Inr (ri\<lparr>product_release := Some r\<rparr>,
                            evs @ [Call_get_product_release (ri_before ri) a])))))"

text \<open>Lines 485 to 490.\<close>

definition main_librpm ::
  "env \<Rightarrow> rpminspect \<times> event list \<Rightarrow> outcome + rpminspect \<times> event list" where
  "main_librpm e st =
     (case st of (ri, evs) \<Rightarrow>
        if \<not> init_librpm e
        then Inl \<lparr>status = Exit EXIT_FAILURE,
                  events = evs @ [Call_init_librpm, Stderr Rpm_configuration_unreadable]\<rparr>
        else Inr (ri, evs @ [Call_init_librpm]))"

text \<open>
  Lines 492 to 536. \<open>arch_found\<close> is the inner loop over \<open>valid_arches\<close>, \<open>collect_arches\<close>
  the loop over the tokens of the option, with \<open>ri.arches\<close> as it grows.
\<close>

fun arch_found :: "string list \<Rightarrow> string \<Rightarrow> bool" where
  "arch_found [] token = False"
| "arch_found (arch # rest) token = (if token = arch then True else arch_found rest token)"

fun collect_arches :: "string list \<Rightarrow> string list \<Rightarrow> string list \<Rightarrow> error + string list" where
  "collect_arches valid_arches [] ri_arches = Inr ri_arches"
| "collect_arches valid_arches (token # rest) ri_arches =
     (if \<not> arch_found valid_arches token then Inl (Unsupported_architecture token)
      else collect_arches valid_arches rest (ri_arches @ [token]))"

definition main_arches ::
  "env \<Rightarrow> locals \<Rightarrow> rpminspect \<times> event list \<Rightarrow> outcome + rpminspect \<times> event list" where
  "main_arches e l st =
     (case st of (ri, evs) \<Rightarrow>
        (case archopt l of
           None \<Rightarrow> Inr (ri, evs)
         | Some walk \<Rightarrow>
             (let ri1 = ri\<lparr>arches := Some []\<rparr>;
                  valid_arches = get_all_arches e ri1
              in case collect_arches valid_arches (strsep_all (Some walk) (CHR '','')) [] of
                   Inl err \<Rightarrow>
                     Inl \<lparr>status = Exit EXIT_FAILURE,
                          events = evs @ [Call_get_all_arches, Stderr err]\<rparr>
                 | Inr ri_arches \<Rightarrow>
                     Inr (ri1\<lparr>arches := Some ri_arches\<rparr>, evs @ [Call_get_all_arches]))))"

text \<open>Lines 538 to 544.\<close>

definition main_workdir ::
  "env \<Rightarrow> rpminspect \<times> event list \<Rightarrow> outcome + rpminspect \<times> event list" where
  "main_workdir e st =
     (case st of (ri, evs) \<Rightarrow>
        if mkdirp e (workdir ri) \<noteq> 0
        then Inl \<lparr>status = Exit EXIT_FAILURE,
                  events = evs @ [Call_mkdirp (workdir ri),
                                  Stderr (Workdir_create_failed (workdir ri)),
                                  Call_free_rpminspect]\<rparr>
        else Inr (ri, evs @ [Call_mkdirp (workdir ri)]))"

text \<open>Lines 546 to 551: on failure the process ends at once, through \<open>exit\<close>.\<close>

definition main_gather ::
  "env \<Rightarrow> locals \<Rightarrow> rpminspect \<times> event list \<Rightarrow> outcome + rpminspect \<times> int \<times> event list" where
  "main_gather e l st =
     (case st of (ri, evs) \<Rightarrow>
        (case gather_builds e ri (fetch_only l) of
           (ret, ri') \<Rightarrow>
             if ret \<noteq> 0
             then Inl \<lparr>status = Exit EXIT_FAILURE,
                       events = evs @ [Call_gather_builds (fetch_only l) ret,
                                       Stderr Build_gather_failed]\<rparr>
             else Inr (ri', ret, evs @ [Call_gather_builds (fetch_only l) ret])))"

text \<open>
  The loop of lines 555 to 569 over the table of inspections, with the context, the local
  \<open>ret\<close> and the trace.
\<close>

fun run_inspections ::
  "inspect list \<Rightarrow> rpminspect \<Rightarrow> int \<Rightarrow> event list \<Rightarrow> rpminspect \<times> int \<times> event list" where
  "run_inspections [] ri ret evs = (ri, ret, evs)"
| "run_inspections (d # ds) ri ret evs =
     (if flag d = 0 then (ri, ret, evs)
      else if tests ri AND flag d = 0 then run_inspections ds ri ret evs
      else if ri_before ri = None \<and> \<not> single_build d then run_inspections ds ri ret evs
      else (case driver d ri of
              (passed, ri') \<Rightarrow>
                run_inspections ds ri' (if \<not> passed then EXIT_FAILURE else ret)
                  (evs @ [Call_driver (name d) passed])))"

text \<open>Lines 581 to 593: the release of the working directory and the final \<open>return\<close>.\<close>

definition main_clean_up :: "env \<Rightarrow> locals \<Rightarrow> rpminspect \<Rightarrow> int \<Rightarrow> event list \<Rightarrow> outcome" where
  "main_clean_up e l ri ret evs =
     \<lparr>status = Exit EXIT_SUCCESS,
      events =
        (if keep l then evs @ [Stdout_keeping (worksubdir ri)]
         else if rmtree e (workdir ri) \<noteq> 0
         then evs @ [Call_rmtree (workdir ri), Stderr (Workdir_remove_failed (workdir ri))]
         else evs @ [Call_rmtree (workdir ri)])
        @ [Call_free_rpminspect]\<rparr>"

text \<open>Lines 553 to 593: the inspections, the output of the results, the clean up.\<close>

definition main_run :: "env \<Rightarrow> locals \<Rightarrow> rpminspect \<times> int \<times> event list \<Rightarrow> outcome" where
  "main_run e l st =
     (case st of (ri, ret, evs) \<Rightarrow>
        if \<not> fetch_only l
        then (case run_inspections (inspections e) ri ret evs of
                (ri', ret', evs') \<Rightarrow>
                  (let idx = (if formatidx l = -1 then 0 else formatidx l)
                   in if results ri' \<noteq> None
                      then main_clean_up e l ri' ret'
                             (evs' @ [Call_format_driver idx (output l)])
                      else main_clean_up e l ri' ret' evs'))
        else main_clean_up e l ri ret evs)"

text \<open>Lines 400 to 551: from the configuration file to the gathered builds.\<close>

definition main_setup ::
  "env \<Rightarrow> locals \<Rightarrow> string list \<Rightarrow> outcome + rpminspect \<times> int \<times> event list" where
  "main_setup e l args =
     and_then (choose_config e l) (\<lambda>cfg.
     and_then (main_init e l cfg) (\<lambda>st.
     and_then (main_builds args st) (\<lambda>st.
     and_then (main_fetch_only l st) (\<lambda>st.
     and_then (main_release st) (\<lambda>st.
     and_then (main_librpm e st) (\<lambda>st.
     and_then (main_arches e l st) (\<lambda>st.
     and_then (main_workdir e st) (\<lambda>st.
     main_gather e l st))))))))"

text \<open>\<open>main\<close>, lines 220 to 594, on the options and the positional arguments.\<close>

definition main :: "env \<Rightarrow> cli_option list \<Rightarrow> string list \<Rightarrow> outcome" where
  "main e opts args =
     (case parse_options e initial_locals opts of
        Inl out \<Rightarrow> out
      | Inr l \<Rightarrow>
          (case main_setup e l args of
             Inl out \<Rightarrow> out
           | Inr st \<Rightarrow> main_run e l st))"

text \<open>
  Whether an inspection is selected in the context, and whether it applies to the builds
  of the context: the negations of the two tests of lines 557 and 562.
\<close>

definition is_selected :: "rpminspect \<Rightarrow> inspect \<Rightarrow> bool" where
  "is_selected ri d = (tests ri AND flag d \<noteq> 0)"

definition is_applicable :: "rpminspect \<Rightarrow> inspect \<Rightarrow> bool" where
  "is_applicable ri d = (ri_before ri \<noteq> None \<or> single_build d)"

text \<open>The entries of the table before its terminating entry.\<close>

definition registered :: "inspect list \<Rightarrow> inspect list" where
  "registered table = takeWhile (\<lambda>d. flag d \<noteq> 0) table"

text \<open>A driver that leaves the selection and the before build of the context as they are.\<close>

definition keeps_selection :: "inspect \<Rightarrow> bool" where
  "keeps_selection d =
     (\<forall>ri. tests (snd (driver d ri)) = tests ri \<and> ri_before (snd (driver d ri)) = ri_before ri)"

text \<open>
  The drivers of a list of inspections invoked one after another, each on the context
  that the one before it has left: the name and the verdict of each call, in order, and
  the context after the last. The loop over the table is compared with this.
\<close>

fun invoke_drivers :: "inspect list \<Rightarrow> rpminspect \<Rightarrow> (string \<times> bool) list \<times> rpminspect" where
  "invoke_drivers [] ri = ([], ri)"
| "invoke_drivers (d # ds) ri =
     (case driver d ri of
        (passed, ri') \<Rightarrow>
          (case invoke_drivers ds ri' of
             (calls, ri'') \<Rightarrow> ((name d, passed) # calls, ri'')))"

text \<open>The options \<open>-T\<close> and \<open>-E\<close>, which select inspections.\<close>

fun is_selection :: "cli_option \<Rightarrow> bool" where
  "is_selection (Opt_T optarg) = True"
| "is_selection (Opt_E optarg) = True"
| "is_selection opt = False"

text \<open>
  A token that \<open>process_inspection_flag\<close> accepts: \<open>ALL\<close>, or the name of an entry of the
  table, in any case of letters.
\<close>

definition known_inspection :: "inspect list \<Rightarrow> string \<Rightarrow> bool" where
  "known_inspection table token =
     (strcasecmp_eq token ''ALL'' \<or> (\<exists>d \<in> set (registered table). strcasecmp_eq token (name d)))"

section \<open>A sample installation\<close>

text \<open>
  Three inspections, of which \<open>license\<close> fails and records a result and \<open>elfsyms\<close> needs two
  builds; one output format; a file system and a library where every call succeeds.
\<close>

definition sample_ri :: rpminspect where
  "sample_ri =
     \<lparr>verbose = False, product_release = None, tests = NOT 0,
      workdir = ''/var/tmp/rpminspect'', worksubdir = None, ri_before = None, ri_after = None,
      arches = None, results = None\<rparr>"

definition sample_inspections :: "inspect list" where
  "sample_inspections =
     [\<lparr>flag = 1, name = ''license'', single_build = True,
       driver = (\<lambda>ri. (False, ri\<lparr>results := Some [''license'']\<rparr>)), desc = None\<rparr>,
      \<lparr>flag = 2, name = ''elfsyms'', single_build = False,
       driver = (\<lambda>ri. (True, ri)), desc = None\<rparr>,
      \<lparr>flag = 4, name = ''manpage'', single_build = True,
       driver = (\<lambda>ri. (True, ri)), desc = None\<rparr>]"

definition sample_env :: env where
  "sample_env =
     \<lparr>inspections = sample_inspections,
      formats = [\<lparr>fmt_type = 0, fmt_name = ''text'', fmt_desc = None\<rparr>],
      access_ok = (\<lambda>path. True),
      glob_tilde = (\<lambda>pattern. (0, [pattern])),
      init_rpminspect = (\<lambda>cfg. (0, sample_ri)),
      init_librpm = True,
      get_all_arches = (\<lambda>ri. [''x86_64'', ''noarch'']),
      mkdirp = (\<lambda>path. 0),
      gather_builds = (\<lambda>ri fetch. (0, ri\<lparr>worksubdir := Some ''/var/tmp/rpminspect/w''\<rparr>)),
      rmtree = (\<lambda>path. 0)\<rparr>"

text \<open>The same installation with builds that cannot be gathered.\<close>

definition sample_env_no_builds :: env where
  "sample_env_no_builds = sample_env\<lparr>gather_builds := (\<lambda>ri fetch. (-1, ri))\<rparr>"

text \<open>
  The context of the sample installation once the single build \<open>pkg-1.0-1.fc30\<close> is
  gathered.
\<close>

definition sample_gathered :: rpminspect where
  "sample_gathered =
     sample_ri\<lparr>product_release := Some ''fc30'', ri_after := Some ''pkg-1.0-1.fc30'',
               worksubdir := Some ''/var/tmp/rpminspect/w''\<rparr>"

section \<open>Facts about the library functions\<close>

lemma rindex_None_iff: "rindex s c = None \<longleftrightarrow> c \<notin> set s"
  by (induction s) (auto split: option.splits)

lemma rindex_last: "c \<notin> set suf \<Longrightarrow> rindex (pre @ c # suf) c = Some (length pre)"
proof (induction pre)
  case Nil
  then have "rindex suf c = None" by (simp add: rindex_None_iff)
  then show ?case by simp
next
  case (Cons x pre)
  then show ?case by simp
qed

lemma take_strcspn: "take (strcspn s [c]) s = takeWhile (\<lambda>x. x \<noteq> c) s"
  by (induction s) auto

section \<open>The product release\<close>

lemma product_after_last_period:
  "CHR ''.'' \<notin> set suf \<Longrightarrow>
   get_product_release None (pre @ CHR ''.'' # suf)
     = Returned (Inr (takeWhile (\<lambda>x. x \<noteq> CHR ''/'') suf))"
  by (simp add: get_product_release_def rindex_last strdup_def take_strcspn)

lemma product_of_two_builds:
  "CHR ''.'' \<notin> set suf \<Longrightarrow> CHR ''.'' \<notin> set bsuf \<Longrightarrow>
   get_product_release (Some (bpre @ CHR ''.'' # bsuf)) (pre @ CHR ''.'' # suf)
     = (if takeWhile (\<lambda>x. x \<noteq> CHR ''/'') bsuf = takeWhile (\<lambda>x. x \<noteq> CHR ''/'') suf
        then Returned (Inr (takeWhile (\<lambda>x. x \<noteq> CHR ''/'') suf))
        else Returned (Inl (Product_release_mismatch
                              (takeWhile (\<lambda>x. x \<noteq> CHR ''/'') bsuf)
                              (takeWhile (\<lambda>x. x \<noteq> CHR ''/'') suf))))"
  by (simp add: get_product_release_def rindex_last strdup_def take_strcspn)

text \<open>
  Claim C2. A before identifier on which the extraction fails should make the resolver
  return the error \<open>EmptyProductRelease\<close> for "before". The function does not: with no
  period in the before identifier its behaviour is undefined, the test that guards the
  after identifier being absent here, and so is that of the run \<open>rpminspect pkg
  pkg-1.0-1.fc30\<close>; with an empty tag after the last period it reports a mismatch of
  releases, or returns the empty tag when the after tag is empty too.
\<close>

theorem before_without_period_is_undefined:
  "get_product_release (Some ''pkg'') ''pkg-1.0-1.fc30'' = Undefined_behaviour
   \<and> status (main sample_env [] [''pkg'', ''pkg-1.0-1.fc30'']) = Undefined
   \<and> get_product_release (Some ''pkg.'') ''pkg-1.0-1.fc30''
       = Returned (Inl (Product_release_mismatch [] ''fc30''))
   \<and> get_product_release (Some ''pkg.'') ''pkg-1.0-1.'' = Returned (Inr [])"
proof -
  have "status (main sample_env [] [''pkg'', ''pkg-1.0-1.fc30'']) = Undefined"
    by code_simp
  then show ?thesis by (simp add: get_product_release_def strdup_def)
qed

text \<open>
  Claim C5. The resolver should return the text after the last period with the trailing
  slashes stripped, as the comments of the function say too, and fail with
  \<open>EmptyProductRelease\<close> for "after" when that tag is empty. The function does neither.
  Of \<open>pkg-1.2.fc30/rest\<close> it returns \<open>fc30\<close>, where the specification keeps \<open>fc30/rest\<close>:
  \<open>strcspn\<close> cuts at the first slash, not at the trailing ones. Of \<open>pkg.\<close> it returns the
  empty tag: the message that the release is empty is guarded by tests for \<open>NULL\<close> only,
  and the run \<open>rpminspect pkg.\<close> goes on to the inspections and ends with status 0.
\<close>

theorem resolve_differs_from_specification:
  "get_product_release None ''pkg-1.2.fc30/rest''
     \<noteq> Returned (spec_resolve None ''pkg-1.2.fc30/rest'')
   \<and> get_product_release None ''pkg-1.2.fc30/rest'' = Returned (Inr ''fc30'')
   \<and> spec_resolve None ''pkg-1.2.fc30/rest'' = Inr ''fc30/rest''
   \<and> get_product_release None ''pkg.'' \<noteq> Returned (spec_resolve None ''pkg.'')
   \<and> get_product_release None ''pkg.'' = Returned (Inr [])
   \<and> spec_resolve None ''pkg.'' = Inl (Empty_product_release After_build ''pkg.'')
   \<and> status (main sample_env [] [''pkg.'']) = Exit EXIT_SUCCESS
   \<and> driver_calls (events (main sample_env [] [''pkg.''])) = [''license'', ''manpage'']"
proof -
  have "status (main sample_env [] [''pkg.'']) = Exit EXIT_SUCCESS"
    and "driver_calls (events (main sample_env [] [''pkg.''])) = [''license'', ''manpage'']"
    by code_simp+
  then show ?thesis
    by (simp add: get_product_release_def strdup_def spec_resolve_def spec_product_tag_def
        strip_trailing_slashes_def)
qed

text \<open>
  Claim C10. The tag is cut at the first slash after the last period: of an identifier
  \<open>pre.tag/rest\<close>, where neither \<open>tag\<close> nor \<open>rest\<close> holds a period and \<open>tag\<close> holds no
  slash, the tag is \<open>tag\<close>, and all of \<open>/rest\<close> is dropped, whether the slash is the last
  character or not. This holds for the after identifier and for the before identifier,
  so that two identifiers that differ only after the slash have one release. Of an
  identifier \<open>pre.tag\<close> with no slash after the last period the tag is all of \<open>tag\<close>.
\<close>

theorem tag_cut_at_first_slash:
  "(CHR ''.'' \<notin> set tag \<and> CHR ''/'' \<notin> set tag \<and> CHR ''.'' \<notin> set rest \<longrightarrow>
      get_product_release None (pre @ ''.'' @ tag @ ''/'' @ rest) = Returned (Inr tag))
   \<and> (CHR ''.'' \<notin> set tag \<and> CHR ''/'' \<notin> set tag \<and> CHR ''.'' \<notin> set rest
       \<and> CHR ''.'' \<notin> set brest \<longrightarrow>
      get_product_release (Some (bpre @ ''.'' @ tag @ ''/'' @ brest))
        (pre @ ''.'' @ tag @ ''/'' @ rest) = Returned (Inr tag))
   \<and> (CHR ''.'' \<notin> set tag \<and> CHR ''/'' \<notin> set tag \<longrightarrow>
      get_product_release None (pre @ ''.'' @ tag) = Returned (Inr tag))"
proof (intro conjI impI)
  assume h: "CHR ''.'' \<notin> set tag \<and> CHR ''/'' \<notin> set tag \<and> CHR ''.'' \<notin> set rest"
  then have cut: "takeWhile (\<lambda>x. x \<noteq> CHR ''/'') (tag @ CHR ''/'' # rest) = tag"
    by (auto simp: takeWhile_tail)
  from h have suf: "CHR ''.'' \<notin> set (tag @ CHR ''/'' # rest)" by simp
  show "get_product_release None (pre @ ''.'' @ tag @ ''/'' @ rest) = Returned (Inr tag)"
    using product_after_last_period [OF suf, of pre] by (simp add: cut)
next
  assume h: "CHR ''.'' \<notin> set tag \<and> CHR ''/'' \<notin> set tag \<and> CHR ''.'' \<notin> set rest
             \<and> CHR ''.'' \<notin> set brest"
  then have cut: "takeWhile (\<lambda>x. x \<noteq> CHR ''/'') (tag @ CHR ''/'' # r) = tag" for r
    by (auto simp: takeWhile_tail)
  from h have suf: "CHR ''.'' \<notin> set (tag @ CHR ''/'' # rest)"
    and bsuf: "CHR ''.'' \<notin> set (tag @ CHR ''/'' # brest)" by simp_all
  show "get_product_release (Some (bpre @ ''.'' @ tag @ ''/'' @ brest))
          (pre @ ''.'' @ tag @ ''/'' @ rest) = Returned (Inr tag)"
    using product_of_two_builds [OF suf bsuf, of bpre pre] by (simp add: cut)
next
  assume h: "CHR ''.'' \<notin> set tag \<and> CHR ''/'' \<notin> set tag"
  then have whole: "takeWhile (\<lambda>x. x \<noteq> CHR ''/'') tag = tag" by auto
  from h have "CHR ''.'' \<notin> set tag" by simp
  from product_after_last_period [OF this, of pre]
  show "get_product_release None (pre @ ''.'' @ tag) = Returned (Inr tag)"
    by (simp add: whole)
qed

text \<open>
  Claim C10 on its example: \<open>pkg-1.2.fc30/rest\<close> has the tag \<open>fc30\<close>, alone and next to a
  before identifier with another tail.
\<close>

theorem tag_cut_at_first_slash_witness:
  "get_product_release None ''pkg-1.2.fc30/rest'' = Returned (Inr ''fc30'')
   \<and> get_product_release (Some ''old-1.1.fc30/x/y'') ''pkg-1.2.fc30/rest'' = Returned (Inr ''fc30'')
   \<and> get_product_release None ''pkg-1.2.fc30'' = Returned (Inr ''fc30'')"
  using tag_cut_at_first_slash [of "''fc30''" "''rest''" "''pkg-1.2''" "''x/y''" "''old-1.1''"]
  by simp

section \<open>Runs of the sample installation\<close>

lemma sample_select_license:
  "parse_options sample_env initial_locals [Opt_T ''license'']
     = Inr (initial_locals\<lparr>selected := 1, exclude := False, inspection_opt := True\<rparr>)"
  by code_simp

lemma sample_exclude_license:
  "parse_options sample_env initial_locals [Opt_E ''license'']
     = Inr (initial_locals\<lparr>selected := NOT 1, exclude := True, inspection_opt := True\<rparr>)"
  by code_simp

lemma sample_fetch_only:
  "parse_options sample_env initial_locals [Opt_f]
     = Inr (initial_locals\<lparr>fetch_only := True, keep := True\<rparr>)"
  by simp

lemma sample_tokens_bogus:
  "strsep_all (Some ''x86_64,bogus'') (CHR '','') = [''x86_64'', ''bogus'']"
  by code_simp

lemma sample_tokens_twice:
  "strsep_all (Some ''x86_64,noarch,x86_64'') (CHR '','') = [''x86_64'', ''noarch'', ''x86_64'']"
  by code_simp

lemma sample_setup:
  "main_setup sample_env initial_locals [''pkg-1.0-1.fc30'']
     = Inr (sample_gathered, 0,
            [Call_init_rpminspect CFGFILE, Call_get_product_release None ''pkg-1.0-1.fc30'',
             Call_init_librpm, Call_mkdirp ''/var/tmp/rpminspect'',
             Call_gather_builds False 0])"
  by code_simp

lemma sample_run:
  "main sample_env [] [''pkg-1.0-1.fc30'']
     = \<lparr>status = Exit EXIT_SUCCESS,
        events = [Call_init_rpminspect CFGFILE,
                  Call_get_product_release None ''pkg-1.0-1.fc30'',
                  Call_init_librpm, Call_mkdirp ''/var/tmp/rpminspect'',
                  Call_gather_builds False 0, Call_driver ''license'' False,
                  Call_driver ''manpage'' True, Call_format_driver 0 None,
                  Call_rmtree ''/var/tmp/rpminspect'', Call_free_rpminspect]\<rparr>"
  by code_simp

lemma sample_frame: "\<forall>d \<in> set (inspections sample_env). keeps_selection d"
  by (simp add: sample_env_def sample_inspections_def keeps_selection_def)

section \<open>The selection options\<close>

lemma parse_options_append:
  "parse_options e l (xs @ ys) =
     (case parse_options e l xs of Inl out \<Rightarrow> Inl out | Inr l' \<Rightarrow> parse_options e l' ys)"
  by (induction xs arbitrary: l) (auto split: sum.splits)

lemma select_inspections_Inr:
  "select_inspections e l excl optarg = Inr l' \<Longrightarrow>
   \<not> inspection_opt l \<and> inspection_opt l' \<and> fetch_only l' = fetch_only l
   \<and> (\<exists>sel. process_tokens (inspections e) excl (strsep_all (Some optarg) (CHR '',''))
               (if excl then NOT 0 else 0) = Inr sel)"
  by (auto simp: select_inspections_def check_inspection_options_def
           split: option.splits sum.splits if_splits)

lemma process_option_flags:
  "process_option e l opt = Inr l' \<Longrightarrow>
   inspection_opt l' = (inspection_opt l \<or> is_selection opt)
   \<and> fetch_only l' = (fetch_only l \<or> opt = Opt_f)"
proof (cases opt)
  case (Opt_T x)
  assume "process_option e l opt = Inr l'"
  with Opt_T show ?thesis using select_inspections_Inr [of e l False x l'] by simp
next
  case (Opt_E x)
  assume "process_option e l opt = Inr l'"
  with Opt_E show ?thesis using select_inspections_Inr [of e l True x l'] by simp
next
  case (Opt_w x)
  assume "process_option e l opt = Inr l'"
  with Opt_w show ?thesis
    by (auto split: if_splits prod.splits list.splits)
next
  case (Opt_F x)
  assume "process_option e l opt = Inr l'"
  with Opt_F show ?thesis
    by (auto simp: Let_def split: if_splits)
qed auto

lemma parse_options_flags:
  "parse_options e l opts = Inr l' \<Longrightarrow>
   inspection_opt l' = (inspection_opt l \<or> (\<exists>opt \<in> set opts. is_selection opt))
   \<and> fetch_only l' = (fetch_only l \<or> Opt_f \<in> set opts)"
proof (induction opts arbitrary: l)
  case Nil
  then show ?case by simp
next
  case (Cons opt opts)
  from Cons.prems obtain l1 where
    one: "process_option e l opt = Inr l1" and more: "parse_options e l1 opts = Inr l'"
    by (auto split: sum.splits)
  from process_option_flags [OF one] Cons.IH [OF more] show ?case by auto
qed

lemma selection_after_selection:
  "inspection_opt l \<Longrightarrow> is_selection opt \<Longrightarrow>
   process_option e l opt
     = Inl \<lparr>status = Exit EXIT_FAILURE, events = [Stderr Conflicting_selection]\<rparr>"
  by (cases opt) (simp_all add: select_inspections_def check_inspection_options_def)

lemma conflict_at_second_selection:
  assumes first: "is_selection opt1" and second: "is_selection opt2"
    and reached: "parse_options e initial_locals (pre @ opt1 # mid) = Inr l"
  shows "main e (pre @ opt1 # mid @ opt2 # post) args
           = \<lparr>status = Exit EXIT_FAILURE, events = [Stderr Conflicting_selection]\<rparr>"
proof -
  from parse_options_flags [OF reached] first have seen: "inspection_opt l" by auto
  have "parse_options e initial_locals ((pre @ opt1 # mid) @ opt2 # post)
          = Inl \<lparr>status = Exit EXIT_FAILURE, events = [Stderr Conflicting_selection]\<rparr>"
    unfolding parse_options_append [of e initial_locals "pre @ opt1 # mid" "opt2 # post"] reached
    by (simp add: selection_after_selection [OF seen second])
  then show ?thesis by (simp add: main_def)
qed

lemma find_inspection_found:
  "find_inspection table token excl sel = (True, sel') \<Longrightarrow>
   \<exists>d \<in> set (registered table). strcasecmp_eq token (name d)"
  by (induction table) (auto simp: registered_def split: if_splits)

lemma process_tokens_known:
  "process_tokens table excl tokens sel = Inr sel' \<Longrightarrow>
   \<forall>token \<in> set tokens. known_inspection table token"
proof (induction tokens arbitrary: sel)
  case Nil
  then show ?case by simp
next
  case (Cons token tokens)
  obtain found sel1 where flag: "process_inspection_flag table token excl sel = (found, sel1)"
    by (cases "process_inspection_flag table token excl sel")
  with Cons.prems have found: found and rest: "process_tokens table excl tokens sel1 = Inr sel'"
    by (auto simp: check_found_def split: if_splits)
  from flag found have "known_inspection table token"
    by (auto simp: process_inspection_flag_def known_inspection_def
             dest: find_inspection_found split: if_splits)
  with Cons.IH [OF rest] show ?case by simp
qed

lemma first_selection_known:
  assumes sel: "opt = Opt_T optarg \<or> opt = Opt_E optarg"
    and reached: "parse_options e initial_locals (pre @ opt # mid) = Inr l"
  shows "\<forall>token \<in> set (strsep_all (Some optarg) (CHR '','')). known_inspection (inspections e) token"
proof -
  from reached obtain l0 l1 where
    "parse_options e initial_locals pre = Inr l0" and one: "process_option e l0 opt = Inr l1"
    by (auto simp: parse_options_append split: sum.splits)
  from sel one obtain excl where "select_inspections e l0 excl optarg = Inr l1" by auto
  from select_inspections_Inr [OF this] process_tokens_known show ?thesis by blast
qed

text \<open>
  Claim C9. When the option loop comes to a second selection option, it ends the run with
  the message that \<open>-T\<close> and \<open>-E\<close> are mutually exclusive and a failure status, whatever
  the two options are: \<open>-T\<close> after \<open>-T\<close> and \<open>-E\<close> after \<open>-E\<close> are refused like \<open>-E\<close>
  after \<open>-T\<close>. The loop comes to the second option when the options before it, the first
  selection option among them, are processed without ending the run.
\<close>

theorem second_selection_option_is_rejected:
  "is_selection opt1 \<and> is_selection opt2
   \<and> parse_options e initial_locals (pre @ opt1 # mid) = Inr l \<longrightarrow>
   main e (pre @ opt1 # mid @ opt2 # post) args
     = \<lparr>status = Exit EXIT_FAILURE, events = [Stderr Conflicting_selection]\<rparr>"
  using conflict_at_second_selection [of opt1 opt2 e pre mid l post args] by blast

text \<open>
  Claim C9 on the sample installation: \<open>-T license -T manpage\<close>, and
  \<open>-E license -v -E manpage\<close>.
\<close>

theorem second_selection_option_is_rejected_witness:
  "main sample_env [Opt_T ''license'', Opt_T ''manpage''] [''pkg-1.0-1.fc30'']
     = \<lparr>status = Exit EXIT_FAILURE, events = [Stderr Conflicting_selection]\<rparr>
   \<and> main sample_env [Opt_E ''license'', Opt_v, Opt_E ''manpage''] [''pkg-1.0-1.fc30'']
     = \<lparr>status = Exit EXIT_FAILURE, events = [Stderr Conflicting_selection]\<rparr>"
proof -
  have verbose: "parse_options sample_env initial_locals [Opt_E ''license'', Opt_v]
     = Inr (initial_locals\<lparr>selected := NOT 1, exclude := True, inspection_opt := True,
                           opt_verbose := True\<rparr>)"
    by code_simp
  from second_selection_option_is_rejected [where ?opt1.0 = "Opt_T ''license''"
      and ?opt2.0 = "Opt_T ''manpage''" and e = sample_env and pre = "[]" and mid = "[]"
      and post = "[]" and args = "[''pkg-1.0-1.fc30'']"] sample_select_license
    second_selection_option_is_rejected [where ?opt1.0 = "Opt_E ''license''"
      and ?opt2.0 = "Opt_E ''manpage''" and e = sample_env and pre = "[]" and mid = "[Opt_v]"
      and post = "[]" and args = "[''pkg-1.0-1.fc30'']"] verbose
  show ?thesis by simp
qed

text \<open>
  Claim C4, as the specification states it, fails when a token of the first list is not
  the name of an inspection: \<open>-T bogus -E license\<close> ends at \<open>bogus\<close> with the message for an
  unknown test, and the loop never comes to \<open>-E\<close>.
\<close>

theorem unknown_first_list_hides_conflict:
  "events (main sample_env [Opt_T ''bogus'', Opt_E ''license''] [''pkg-1.0-1.fc30''])
     = [Stderr (Unknown_inspection ''bogus'')]
   \<and> Stderr Conflicting_selection
       \<notin> set (events (main sample_env [Opt_T ''bogus'', Opt_E ''license''] [''pkg-1.0-1.fc30'']))"
proof -
  have "main sample_env [Opt_T ''bogus'', Opt_E ''license''] [''pkg-1.0-1.fc30'']
          = \<lparr>status = Exit EXIT_FAILURE, events = [Stderr (Unknown_inspection ''bogus'')]\<rparr>"
    by code_simp
  then show ?thesis by simp
qed

text \<open>
  Claim C4, amended. In a run with \<open>-T\<close> and \<open>-E\<close>, in either order, where the options up to
  the second of the two are processed without ending the run, the run fails with the
  message that the two are mutually exclusive, whatever the tokens of the second list are,
  and no inspection runs. The options are processed that far only if every token of the
  first list is \<open>ALL\<close> or the name of an inspection.
\<close>

theorem conflict_once_first_list_accepted:
  "(opt1 = Opt_T list1 \<and> opt2 = Opt_E list2 \<or> opt1 = Opt_E list1 \<and> opt2 = Opt_T list2)
   \<and> parse_options e initial_locals (pre @ opt1 # mid) = Inr l \<longrightarrow>
   main e (pre @ opt1 # mid @ opt2 # post) args
     = \<lparr>status = Exit EXIT_FAILURE, events = [Stderr Conflicting_selection]\<rparr>
   \<and> driver_calls (events (main e (pre @ opt1 # mid @ opt2 # post) args)) = []
   \<and> (\<forall>token \<in> set (strsep_all (Some list1) (CHR '','')).
         known_inspection (inspections e) token)"
proof (intro impI)
  assume h: "(opt1 = Opt_T list1 \<and> opt2 = Opt_E list2 \<or> opt1 = Opt_E list1 \<and> opt2 = Opt_T list2)
   \<and> parse_options e initial_locals (pre @ opt1 # mid) = Inr l"
  then have s1: "is_selection opt1" and s2: "is_selection opt2" by auto
  from h have reached: "parse_options e initial_locals (pre @ opt1 # mid) = Inr l" by simp
  from h have o1: "opt1 = Opt_T list1 \<or> opt1 = Opt_E list1" by auto
  note out = conflict_at_second_selection [OF s1 s2 reached, of post args]
  show "main e (pre @ opt1 # mid @ opt2 # post) args
     = \<lparr>status = Exit EXIT_FAILURE, events = [Stderr Conflicting_selection]\<rparr>
   \<and> driver_calls (events (main e (pre @ opt1 # mid @ opt2 # post) args)) = []
   \<and> (\<forall>token \<in> set (strsep_all (Some list1) (CHR '','')).
         known_inspection (inspections e) token)"
    using first_selection_known [OF o1 reached] by (simp add: out)
qed

text \<open>
  Claim C4, amended, on the sample installation: \<open>-T license -E bogus\<close>, where the second
  list names no inspection.
\<close>

theorem conflict_once_first_list_accepted_witness:
  "parse_options sample_env initial_locals [Opt_T ''license'']
     = Inr (initial_locals\<lparr>selected := 1, exclude := False, inspection_opt := True\<rparr>)
   \<and> main sample_env [Opt_T ''license'', Opt_E ''bogus''] [''pkg-1.0-1.fc30'']
     = \<lparr>status = Exit EXIT_FAILURE, events = [Stderr Conflicting_selection]\<rparr>"
  using conflict_once_first_list_accepted [where ?opt1.0 = "Opt_T ''license''"
      and ?list1.0 = "''license''" and ?opt2.0 = "Opt_E ''bogus''" and ?list2.0 = "''bogus''"
      and e = sample_env and pre = "[]" and mid = "[]" and post = "[]"
      and args = "[''pkg-1.0-1.fc30'']"]
    sample_select_license
  by simp

section \<open>Fetch-only mode\<close>

text \<open>
  Claim C8. In a run with \<open>-f\<close> and two positional arguments, whose options are processed
  and whose configuration is read, \<open>main\<close> fails with the message that fetch-only mode takes
  a single build. Up to there it has called \<open>init_rpminspect\<close> only: the product release is
  not resolved, the architectures are not validated, no working directory is created and
  no build is gathered.
\<close>

theorem fetch_only_takes_single_build:
  assumes parsed: "parse_options e initial_locals opts = Inr l"
    and fetch: "Opt_f \<in> set opts"
    and config: "choose_config e l = Inr cfg"
    and init: "fst (init_rpminspect e cfg) = 0"
  shows "main e opts [b, a]
           = \<lparr>status = Exit EXIT_FAILURE,
              events = [Call_init_rpminspect cfg, Stderr Fetch_only_requires_single_build,
                        Call_free_rpminspect]\<rparr>"
proof -
  from parse_options_flags [OF parsed] fetch have fo: "fetch_only l" by simp
  obtain ri0 where ri0: "init_rpminspect e cfg = (0, ri0)"
    using init by (cases "init_rpminspect e cfg") simp
  then obtain ri where "main_init e l cfg = Inr (ri, [Call_init_rpminspect cfg])"
    by (simp add: main_init_def Let_def)
  then have "main_setup e l [b, a]
               = Inl \<lparr>status = Exit EXIT_FAILURE,
                      events = [Call_init_rpminspect cfg, Stderr Fetch_only_requires_single_build,
                                Call_free_rpminspect]\<rparr>"
    by (simp add: main_setup_def and_then_def config main_builds_def strdup_def
        main_fetch_only_def fo)
  then show ?thesis by (simp add: main_def parsed)
qed

text \<open>Claim C8 on the sample installation: \<open>-f\<close> with a before and an after build.\<close>

theorem fetch_only_takes_single_build_witness:
  "parse_options sample_env initial_locals [Opt_f]
     = Inr (initial_locals\<lparr>fetch_only := True, keep := True\<rparr>)
   \<and> Opt_f \<in> set [Opt_f]
   \<and> choose_config sample_env (initial_locals\<lparr>fetch_only := True, keep := True\<rparr>) = Inr CFGFILE
   \<and> fst (init_rpminspect sample_env CFGFILE) = 0
   \<and> main sample_env [Opt_f] [''pkg-1.0-1.fc30'', ''pkg-1.0-2.fc30'']
       = \<lparr>status = Exit EXIT_FAILURE,
          events = [Call_init_rpminspect CFGFILE, Stderr Fetch_only_requires_single_build,
                    Call_free_rpminspect]\<rparr>"
proof -
  have fetch: "Opt_f \<in> set [Opt_f]" by simp
  have config:
    "choose_config sample_env (initial_locals\<lparr>fetch_only := True, keep := True\<rparr>) = Inr CFGFILE"
    by (simp add: choose_config_def sample_env_def initial_locals_def)
  have init: "fst (init_rpminspect sample_env CFGFILE) = 0"
    by (simp add: sample_env_def)
  from fetch_only_takes_single_build [OF sample_fetch_only fetch config init]
    sample_fetch_only fetch config init
  show ?thesis by simp
qed

section \<open>The architectures\<close>

lemma arch_found_iff: "arch_found valid_arches token \<longleftrightarrow> token \<in> set valid_arches"
  by (induction valid_arches) auto

lemma collect_arches_all:
  "set tokens \<subseteq> set valid_arches \<Longrightarrow>
   collect_arches valid_arches tokens acc = Inr (acc @ tokens)"
  by (induction tokens arbitrary: acc) (auto simp: arch_found_iff)

lemma collect_arches_first_bad:
  "set good \<subseteq> set valid_arches \<Longrightarrow> bad \<notin> set valid_arches \<Longrightarrow>
   collect_arches valid_arches (good @ bad # rest) acc = Inl (Unsupported_architecture bad)"
  by (induction good arbitrary: acc) (auto simp: arch_found_iff)

text \<open>
  Claim C7. The tokens of the \<open>-a\<close> option are looked up, in order, among the supported
  architectures. When all of them are supported, the context receives the tokens in their
  order, duplicates included. Otherwise the run ends with a failure status and the message
  for an unsupported architecture that names the first token that is not supported; no
  part of the list is accepted, since the process ends there.
\<close>

theorem arches_checked_in_order:
  assumes option: "archopt l = Some walk"
    and tokens: "strsep_all (Some walk) (CHR '','') = tokens"
    and supported: "get_all_arches e (ri\<lparr>arches := Some []\<rparr>) = supported"
  shows "(set tokens \<subseteq> set supported \<longrightarrow>
            main_arches e l (ri, evs)
              = Inr (ri\<lparr>arches := Some tokens\<rparr>, evs @ [Call_get_all_arches]))
         \<and> (tokens = good @ bad # rest \<and> set good \<subseteq> set supported \<and> bad \<notin> set supported \<longrightarrow>
            main_arches e l (ri, evs)
              = Inl \<lparr>status = Exit EXIT_FAILURE,
                     events = evs @ [Call_get_all_arches,
                                     Stderr (Unsupported_architecture bad)]\<rparr>)"
proof (intro conjI impI)
  assume "set tokens \<subseteq> set supported"
  from collect_arches_all [OF this, of "[]"]
  show "main_arches e l (ri, evs)
          = Inr (ri\<lparr>arches := Some tokens\<rparr>, evs @ [Call_get_all_arches])"
    by (simp add: main_arches_def option tokens supported)
next
  assume "tokens = good @ bad # rest \<and> set good \<subseteq> set supported \<and> bad \<notin> set supported"
  then have split: "tokens = good @ bad # rest" and good: "set good \<subseteq> set supported"
    and bad: "bad \<notin> set supported" by simp_all
  from collect_arches_first_bad [OF good bad, of rest "[]"]
  show "main_arches e l (ri, evs)
          = Inl \<lparr>status = Exit EXIT_FAILURE,
                 events = evs @ [Call_get_all_arches, Stderr (Unsupported_architecture bad)]\<rparr>"
    by (simp add: main_arches_def option tokens supported split)
qed

text \<open>
  Claim C7 on the sample installation, which supports \<open>x86_64\<close> and \<open>noarch\<close>: the list
  \<open>x86_64,bogus\<close> fails at \<open>bogus\<close>, the list \<open>x86_64,noarch,x86_64\<close> is kept as it is.
\<close>

theorem arches_checked_in_order_witness:
  "main_arches sample_env (initial_locals\<lparr>archopt := Some ''x86_64,bogus''\<rparr>) (sample_ri, [])
     = Inl \<lparr>status = Exit EXIT_FAILURE,
            events = [Call_get_all_arches, Stderr (Unsupported_architecture ''bogus'')]\<rparr>
   \<and> main_arches sample_env (initial_locals\<lparr>archopt := Some ''x86_64,noarch,x86_64''\<rparr>)
         (sample_ri, [])
     = Inr (sample_ri\<lparr>arches := Some [''x86_64'', ''noarch'', ''x86_64'']\<rparr>,
            [Call_get_all_arches])"
proof -
  have supported:
    "get_all_arches sample_env (sample_ri\<lparr>arches := Some []\<rparr>) = [''x86_64'', ''noarch'']"
    by (simp add: sample_env_def)
  have one: "archopt (initial_locals\<lparr>archopt := Some ''x86_64,bogus''\<rparr>) = Some ''x86_64,bogus''"
    by simp
  have two: "archopt (initial_locals\<lparr>archopt := Some ''x86_64,noarch,x86_64''\<rparr>)
               = Some ''x86_64,noarch,x86_64''"
    by simp
  from arches_checked_in_order [OF one sample_tokens_bogus supported,
      where good = "[''x86_64'']" and bad = "''bogus''" and rest = "[]" and evs = "[]"]
    arches_checked_in_order [OF two sample_tokens_twice supported, where evs = "[]"]
  show ?thesis by simp
qed

section \<open>The inspections and the exit status\<close>

text \<open>
  Claim C3. A run that gets through the option loop and through the steps up to the
  gathering of the builds ends with the exit status 0, whatever the drivers of the
  inspections return: the steps from the inspections on end with that status from any
  context, also with \<open>EXIT_FAILURE\<close> in the local \<open>ret\<close>, where the loop over the
  inspections leaves it once a driver has returned failure.
\<close>

theorem inspection_failures_exit_success:
  assumes parsed: "parse_options e initial_locals opts = Inr l"
    and gathered: "main_setup e l args = Inr st"
  shows "status (main e opts args) = Exit EXIT_SUCCESS
         \<and> status (main_run e l (ri, EXIT_FAILURE, evs)) = Exit EXIT_SUCCESS"
  by (simp add: main_def parsed gathered main_run_def main_clean_up_def Let_def
      split: prod.splits)

text \<open>
  Claim C3 on the sample installation: the driver of \<open>license\<close> returns failure, the loop
  leaves \<open>EXIT_FAILURE\<close> in \<open>ret\<close>, and the exit status is 0.
\<close>

theorem inspection_failures_exit_success_witness:
  "parse_options sample_env initial_locals [] = Inr initial_locals
   \<and> Call_driver ''license'' False \<in> set (events (main sample_env [] [''pkg-1.0-1.fc30'']))
   \<and> fst (snd (run_inspections (inspections sample_env) sample_gathered 0 [])) = EXIT_FAILURE
   \<and> status (main sample_env [] [''pkg-1.0-1.fc30'']) = Exit EXIT_SUCCESS"
proof -
  have parsed: "parse_options sample_env initial_locals [] = Inr initial_locals" by simp
  have failed: "Call_driver ''license'' False
                  \<in> set (events (main sample_env [] [''pkg-1.0-1.fc30'']))"
    by (simp add: sample_run)
  have indicator:
    "fst (snd (run_inspections (inspections sample_env) sample_gathered 0 [])) = EXIT_FAILURE"
    by code_simp
  from inspection_failures_exit_success [OF parsed sample_setup] parsed failed indicator
  show ?thesis by simp
qed

lemma driver_calls_append: "driver_calls (xs @ ys) = driver_calls xs @ driver_calls ys"
  by (induction xs rule: driver_calls.induct) simp_all

lemma invoke_drivers_names: "map fst (fst (invoke_drivers ds ri)) = map name ds"
proof (induction ds arbitrary: ri)
  case Nil
  then show ?case by simp
next
  case (Cons d ds)
  obtain passed ri1 where call: "driver d ri = (passed, ri1)" by (cases "driver d ri")
  obtain calls rf where later: "invoke_drivers ds ri1 = (calls, rf)"
    by (cases "invoke_drivers ds ri1")
  from Cons.IH [of ri1] later have "map fst calls = map name ds" by simp
  with call later show ?case by simp
qed

lemma run_inspections_invokes:
  assumes frame: "\<forall>d \<in> set table. keeps_selection d"
    and chosen: "invoke_drivers (filter (\<lambda>d. is_selected ri d \<and> is_applicable ri d)
                                   (registered table)) ri = (calls, ri')"
  shows "run_inspections table ri ret evs
           = (ri', if list_all snd calls then ret else EXIT_FAILURE,
              evs @ map (\<lambda>(n, passed). Call_driver n passed) calls)"
  using frame chosen
proof (induction table arbitrary: ri ret evs calls)
  case Nil
  then show ?case by (auto simp: registered_def)
next
  case (Cons d table)
  from Cons.prems(1) have rest: "\<forall>d \<in> set table. keeps_selection d" by simp
  show ?case
  proof (cases "flag d = 0")
    case True
    with Cons.prems(2) show ?thesis by (auto simp: registered_def)
  next
    case live: False
    show ?thesis
    proof (cases "is_selected ri d \<and> is_applicable ri d")
      case False
      with live Cons.prems(2) have
        "invoke_drivers (filter (\<lambda>d. is_selected ri d \<and> is_applicable ri d)
                           (registered table)) ri = (calls, ri')"
        by (simp add: registered_def)
      from Cons.IH [OF rest this, of ret evs] False live show ?thesis
        by (auto simp: is_selected_def is_applicable_def)
    next
      case True
      obtain passed ri1 where call: "driver d ri = (passed, ri1)" by (cases "driver d ri")
      with Cons.prems(1) have same: "tests ri1 = tests ri" "ri_before ri1 = ri_before ri"
        by (auto simp: keeps_selection_def dest: spec [of _ ri])
      then have pred: "(\<lambda>d. is_selected ri1 d \<and> is_applicable ri1 d)
                         = (\<lambda>d. is_selected ri d \<and> is_applicable ri d)"
        by (simp add: is_selected_def is_applicable_def)
      obtain calls1 where
        later: "invoke_drivers (filter (\<lambda>d. is_selected ri1 d \<and> is_applicable ri1 d)
                                  (registered table)) ri1 = (calls1, ri')"
        and calls: "calls = (name d, passed) # calls1"
        using Cons.prems(2) True live call
        by (auto simp: registered_def pred split: prod.splits)
      from Cons.IH [OF rest later, of "if \<not> passed then EXIT_FAILURE else ret"
          "evs @ [Call_driver (name d) passed]"] True live call calls
      show ?thesis
        by (auto simp: is_selected_def is_applicable_def)
    qed
  qed
qed

lemma main_setup_calls:
  assumes "main_setup e l args = Inr (ri, ret, evs)"
  shows "driver_calls evs = []"
proof -
  from assms obtain cfg s1 s2 s3 s4 s5 s6 s7 where
    "main_init e l cfg = Inr s1" "main_builds args s1 = Inr s2"
    "main_fetch_only l s2 = Inr s3" "main_release s3 = Inr s4" "main_librpm e s4 = Inr s5"
    "main_arches e l s5 = Inr s6" "main_workdir e s6 = Inr s7"
    "main_gather e l s7 = Inr (ri, ret, evs)"
    by (auto simp: main_setup_def and_then_def split: sum.splits)
  moreover have "main_init e l cfg = Inr s \<Longrightarrow> driver_calls (snd s) = []" for s
    by (auto simp: main_init_def Let_def split: prod.splits if_splits)
  moreover have "main_builds args s = Inr s' \<Longrightarrow> driver_calls (snd s') = driver_calls (snd s)"
    for s s'
    by (auto simp: main_builds_def split: prod.splits list.splits)
  moreover have "main_fetch_only l s = Inr s' \<Longrightarrow> driver_calls (snd s') = driver_calls (snd s)"
    for s s'
    by (auto simp: main_fetch_only_def split: prod.splits if_splits)
  moreover have "main_release s = Inr s' \<Longrightarrow> driver_calls (snd s') = driver_calls (snd s)"
    for s s'
    by (auto simp: main_release_def driver_calls_append
        split: prod.splits option.splits c_result.splits sum.splits)
  moreover have "main_librpm e s = Inr s' \<Longrightarrow> driver_calls (snd s') = driver_calls (snd s)"
    for s s'
    by (auto simp: main_librpm_def driver_calls_append split: prod.splits if_splits)
  moreover have "main_arches e l s = Inr s' \<Longrightarrow> driver_calls (snd s') = driver_calls (snd s)"
    for s s'
    by (auto simp: main_arches_def Let_def driver_calls_append
        split: prod.splits option.splits sum.splits)
  moreover have "main_workdir e s = Inr s' \<Longrightarrow> driver_calls (snd s') = driver_calls (snd s)"
    for s s'
    by (auto simp: main_workdir_def driver_calls_append split: prod.splits if_splits)
  moreover have "main_gather e l s = Inr (ri, ret, evs) \<Longrightarrow> driver_calls evs = driver_calls (snd s)"
    for s
    by (auto simp: main_gather_def driver_calls_append split: prod.splits if_splits)
  ultimately show ?thesis by metis
qed

text \<open>
  Claim C6. In a run without \<open>-f\<close> that comes to the inspections, the drivers invoked are
  those of the registered inspections that are selected in the context and applicable to
  its builds, each once, in the order of the table, whatever the drivers return. Each
  driver is applied to the context that the driver before it has left, its verdict is in
  the trace, and the run goes on to the output of the results and to the clean up with the
  context that the last driver has left, with \<open>EXIT_FAILURE\<close> in \<open>ret\<close> if some verdict was
  a failure. The drivers are taken to leave the selection and the before build of the
  context alone.
\<close>

theorem selected_applicable_inspections_run_once:
  assumes parsed: "parse_options e initial_locals opts = Inr l"
    and gathered: "main_setup e l args = Inr (ri, ret, evs)"
    and inspecting: "\<not> fetch_only l"
    and frame: "\<forall>d \<in> set (inspections e). keeps_selection d"
    and invoked: "invoke_drivers (filter (\<lambda>d. is_selected ri d \<and> is_applicable ri d)
                                    (registered (inspections e))) ri = (calls, ri')"
  shows "driver_calls (events (main e opts args))
           = map name (filter (\<lambda>d. is_selected ri d \<and> is_applicable ri d)
                         (registered (inspections e)))
         \<and> map fst calls
             = map name (filter (\<lambda>d. is_selected ri d \<and> is_applicable ri d)
                           (registered (inspections e)))
         \<and> main e opts args
             = main_clean_up e l ri' (if list_all snd calls then ret else EXIT_FAILURE)
                 (evs @ map (\<lambda>(n, passed). Call_driver n passed) calls
                  @ (if results ri' \<noteq> None
                     then [Call_format_driver (if formatidx l = -1 then 0 else formatidx l)
                             (output l)]
                     else []))"
proof -
  let ?chosen = "filter (\<lambda>d. is_selected ri d \<and> is_applicable ri d) (registered (inspections e))"
  note run = run_inspections_invokes [OF frame invoked, of ret evs]
  from invoke_drivers_names [of ?chosen ri] invoked
  have names: "map fst calls = map name ?chosen" by simp
  have "main e opts args = main_run e l (ri, ret, evs)"
    by (simp add: main_def parsed gathered)
  then have run_eq: "main e opts args
             = main_clean_up e l ri' (if list_all snd calls then ret else EXIT_FAILURE)
                 (evs @ map (\<lambda>(n, passed). Call_driver n passed) calls
                  @ (if results ri' \<noteq> None
                     then [Call_format_driver (if formatidx l = -1 then 0 else formatidx l)
                             (output l)]
                     else []))"
    by (simp add: main_run_def inspecting run Let_def)
  have "driver_calls (map (\<lambda>(n, passed). Call_driver n passed) cs) = map fst cs" for cs
    by (induction cs) auto
  with names have "driver_calls (events (main e opts args)) = map name ?chosen"
    unfolding run_eq
    by (simp add: main_clean_up_def driver_calls_append main_setup_calls [OF gathered])
  with names run_eq show ?thesis by simp
qed

text \<open>
  The drivers of the sample installation on a single build: \<open>license\<close> fails and records a
  result, \<open>elfsyms\<close> needs two builds and is left out, \<open>manpage\<close> passes.
\<close>

lemma sample_invoked:
  "invoke_drivers (filter (\<lambda>d. is_selected sample_gathered d \<and> is_applicable sample_gathered d)
                     (registered (inspections sample_env))) sample_gathered
     = ([(''license'', False), (''manpage'', True)],
        sample_gathered\<lparr>results := Some [''license'']\<rparr>)"
  by code_simp

text \<open>
  Claim C6 on the sample installation with a single build: \<open>license\<close> runs and fails,
  \<open>elfsyms\<close> is skipped, \<open>manpage\<close> runs all the same, and the results that \<open>license\<close> has
  recorded are handed to the output format.
\<close>

theorem selected_applicable_inspections_run_once_witness:
  "driver_calls (events (main sample_env [] [''pkg-1.0-1.fc30''])) = [''license'', ''manpage'']
   \<and> main sample_env [] [''pkg-1.0-1.fc30'']
       = \<lparr>status = Exit EXIT_SUCCESS,
          events = [Call_init_rpminspect CFGFILE,
                    Call_get_product_release None ''pkg-1.0-1.fc30'',
                    Call_init_librpm, Call_mkdirp ''/var/tmp/rpminspect'',
                    Call_gather_builds False 0, Call_driver ''license'' False,
                    Call_driver ''manpage'' True, Call_format_driver 0 None,
                    Call_rmtree ''/var/tmp/rpminspect'', Call_free_rpminspect]\<rparr>"
proof -
  have parsed: "parse_options sample_env initial_locals [] = Inr initial_locals" by simp
  have inspecting: "\<not> fetch_only initial_locals" by (simp add: initial_locals_def)
  have chosen:
    "map name (filter (\<lambda>d. is_selected sample_gathered d \<and> is_applicable sample_gathered d)
                 (registered (inspections sample_env))) = [''license'', ''manpage'']"
    by code_simp
  have rm: "rmtree sample_env p = 0" for p by (simp add: sample_env_def)
  from selected_applicable_inspections_run_once
    [OF parsed sample_setup inspecting sample_frame sample_invoked] chosen
  show ?thesis
    by (simp add: main_clean_up_def initial_locals_def rm sample_gathered_def sample_ri_def)
qed

section \<open>The working directory\<close>

text \<open>
  Claim C1. Once the working directory is created, every way out of \<open>main\<close> should release
  it. The way out taken when the builds cannot be gathered does not: the run below creates
  the directory, fails to gather, and ends through \<open>exit\<close> with neither \<open>rmtree\<close> nor the
  message that the directory is kept.
\<close>

theorem gather_failure_keeps_workdir:
  "main sample_env_no_builds [] [''pkg-1.0-1.fc30'', ''pkg-1.0-2.fc30'']
     = \<lparr>status = Exit EXIT_FAILURE,
        events = [Call_init_rpminspect CFGFILE,
                  Call_get_product_release (Some ''pkg-1.0-1.fc30'') ''pkg-1.0-2.fc30'',
                  Call_init_librpm, Call_mkdirp ''/var/tmp/rpminspect'',
                  Call_gather_builds False (-1), Stderr Build_gather_failed]\<rparr>"
  by code_simp

end
